theory Spec2Isabelle
  imports Main "HOL-Library.AList"
begin

unbundle bit_operations_syntax

section \<open>TEP-64 token data parser\<close>

text \<open>
  A shallow embedding of \<^verbatim>\<open>src/TEP64Parser.py\<close>. Python \<^verbatim>\<open>str\<close> values are Isabelle
  strings: the bytes of the text's UTF-8 encoding, so that \<^verbatim>\<open>s.encode("utf-8")\<close> reads
  each character as its byte. Python integers are \<^typ>\<open>int\<close>.
\<close>

subsection \<open>The reference hash function\<close>

text \<open>
  Modelled from the spec: \<^verbatim>\<open>hashlib.sha256\<close> is imported by the source and is not
  part of it. The reference hash function of the data model (AttributeKey) is SHA-256;
  it is written here after FIPS 180-4, on 32-bit values held in \<^typ>\<open>int\<close> with the
  reduction modulo \<open>2 ^ 32\<close> written out. Bytes are integers from 0 to 255. The round
  constants are the first 32 bits of the fractional parts of the cube roots of the first
  64 primes, the initial state those of the square roots of the first 8 primes.
\<close>

definition add32 :: "int \<Rightarrow> int \<Rightarrow> int" where
  "add32 x y = (x + y) mod 4294967296"

definition rotr :: "nat \<Rightarrow> int \<Rightarrow> int" where
  "rotr n x = drop_bit n x OR take_bit 32 (push_bit (32 - n) x)"

definition Ch :: "int \<Rightarrow> int \<Rightarrow> int \<Rightarrow> int" where
  "Ch x y z = (x AND y) XOR ((4294967295 - x) AND z)"

definition Maj :: "int \<Rightarrow> int \<Rightarrow> int \<Rightarrow> int" where
  "Maj x y z = (x AND y) XOR (x AND z) XOR (y AND z)"

definition bsig0 :: "int \<Rightarrow> int" where
  "bsig0 x = rotr 2 x XOR rotr 13 x XOR rotr 22 x"

definition bsig1 :: "int \<Rightarrow> int" where
  "bsig1 x = rotr 6 x XOR rotr 11 x XOR rotr 25 x"

definition ssig0 :: "int \<Rightarrow> int" where
  "ssig0 x = rotr 7 x XOR rotr 18 x XOR drop_bit 3 x"

definition ssig1 :: "int \<Rightarrow> int" where
  "ssig1 x = rotr 17 x XOR rotr 19 x XOR drop_bit 10 x"

definition K256 :: "int list" where
  "K256 = [
     1116352408, 1899447441, 3049323471, 3921009573,
     961987163, 1508970993, 2453635748, 2870763221,
     3624381080, 310598401, 607225278, 1426881987,
     1925078388, 2162078206, 2614888103, 3248222580,
     3835390401, 4022224774, 264347078, 604807628,
     770255983, 1249150122, 1555081692, 1996064986,
     2554220882, 2821834349, 2952996808, 3210313671,
     3336571891, 3584528711, 113926993, 338241895,
     666307205, 773529912, 1294757372, 1396182291,
     1695183700, 1986661051, 2177026350, 2456956037,
     2730485921, 2820302411, 3259730800, 3345764771,
     3516065817, 3600352804, 4094571909, 275423344,
     430227734, 506948616, 659060556, 883997877,
     958139571, 1322822218, 1537002063, 1747873779,
     1955562222, 2024104815, 2227730452, 2361852424,
     2428436474, 2756734187, 3204031479, 3329325298]"

definition H256 :: "int list" where
  "H256 = [
     1779033703, 3144134277, 1013904242, 2773480762,
     1359893119, 2600822924, 528734635, 1541459225]"

definition be_bytes :: "nat \<Rightarrow> int \<Rightarrow> int list" where
  "be_bytes n x = map (\<lambda>i. (x div 256 ^ i) mod 256) (rev [0..<n])"

definition from_bytes_big :: "int list \<Rightarrow> int" where
  "from_bytes_big bs = foldl (\<lambda>acc b. acc * 256 + b) 0 bs"

definition pad :: "int list \<Rightarrow> int list" where
  "pad m = m @ [128] @ replicate (nat ((55 - int (length m)) mod 64)) 0
             @ be_bytes 8 (8 * int (length m))"

fun chunks :: "nat \<Rightarrow> 'a list \<Rightarrow> 'a list list" where
  "chunks n [] = []"
| "chunks n (x # xs) = take n (x # xs) # chunks n (drop (n - 1) xs)"

fun schedule :: "nat \<Rightarrow> int list \<Rightarrow> int list" where
  "schedule 0 w = w"
| "schedule (Suc k) w =
     (let t = length w
      in schedule k (w @ [add32 (add32 (add32 (ssig1 (w ! (t - 2))) (w ! (t - 7)))
                                      (ssig0 (w ! (t - 15)))) (w ! (t - 16))]))"

fun round256 :: "int list \<Rightarrow> int \<times> int \<Rightarrow> int list" where
  "round256 [a, b, c, d, e, f, g, h] (k, w) =
     (let t1 = add32 (add32 (add32 (add32 h (bsig1 e)) (Ch e f g)) k) w;
          t2 = add32 (bsig0 a) (Maj a b c)
      in [add32 t1 t2, a, b, c, add32 d t1, e, f, g])"
| "round256 s _ = s"

definition compress :: "int list \<Rightarrow> int list \<Rightarrow> int list" where
  "compress hs block =
     (let w = schedule 48 (map from_bytes_big (chunks 4 block))
      in map2 add32 hs (foldl round256 hs (zip K256 w)))"

definition sha256 :: "int list \<Rightarrow> int list" where
  "sha256 m = concat (map (be_bytes 4) (foldl compress H256 (chunks 64 (pad m))))"

subsection \<open>Attribute keys\<close>

text \<open>
  \<^verbatim>\<open>calculate_key\<close>: the SHA-256 digest of the UTF-8 bytes of the name, read as a
  big-endian integer (\<^verbatim>\<open>int.from_bytes(key_bytes, "big")\<close>).
\<close>

definition calculate_key :: "string \<Rightarrow> int" where
  "calculate_key key_string = from_bytes_big (sha256 (map of_char key_string))"

subsection \<open>Exceptions\<close>

text \<open>
  \<^verbatim>\<open>InvalidPrefixError\<close> and \<^verbatim>\<open>DataFetchingError\<close> are the module's own exceptions
  (both subclasses of \<^verbatim>\<open>ContentParsingError\<close>), \<^verbatim>\<open>RequestException\<close> is the base class
  of the failures of \<^verbatim>\<open>requests\<close>; each carries its message. \<^verbatim>\<open>OtherError\<close> stands for
  every other exception (a failure of the cell reader, \<^verbatim>\<open>TypeError\<close>, \<^verbatim>\<open>ValueError\<close>).
\<close>

datatype exn =
    InvalidPrefixError string
  | DataFetchingError string
  | RequestException string
  | OtherError string

subsection \<open>Python built-ins\<close>

definition startswith :: "string \<Rightarrow> string \<Rightarrow> bool" where
  "startswith s p = (take (length p) s = p)"

text \<open>\<^verbatim>\<open>s.replace(old, new)\<close>: every non-overlapping occurrence, from the left.\<close>

fun replace :: "string \<Rightarrow> string \<Rightarrow> string \<Rightarrow> string" where
  "replace [] old new = (if old = [] then new else [])"
| "replace (c # cs) old new =
     (if old = [] then new @ c # replace cs old new
      else if startswith (c # cs) old then new @ replace (drop (length old - 1) cs) old new
      else c # replace cs old new)"

text \<open>\<^verbatim>\<open>str(n)\<close> for an integer, as an f-string formats it.\<close>

function str_nonneg :: "int \<Rightarrow> string" where
  "str_nonneg n =
     (if n < 10 then [char_of (48 + n)]
      else str_nonneg (n div 10) @ [char_of (48 + n mod 10)])"
  by pat_completeness auto
termination
  by (relation "measure nat") auto

definition str_int :: "int \<Rightarrow> string" where
  "str_int n = (if n < 0 then CHR ''-'' # str_nonneg (- n) else str_nonneg n)"

text \<open>
  \<^verbatim>\<open>bitarray.to01()\<close> writes each bit as the character 0 or 1. \<^verbatim>\<open>int(s)\<close> reads a string
  in base ten; it is modelled on strings of decimal digits, which is all \<^verbatim>\<open>to01\<close>
  produces, and raises \<^verbatim>\<open>ValueError\<close> on the empty string.
\<close>

definition to01 :: "bool list \<Rightarrow> string" where
  "to01 a = map (\<lambda>b. if b then CHR ''1'' else CHR ''0'') a"

definition is_digit :: "char \<Rightarrow> bool" where
  "is_digit c = (48 \<le> (of_char c :: int) \<and> (of_char c :: int) \<le> 57)"

definition int_of_str :: "string \<Rightarrow> exn + int" where
  "int_of_str s =
     (if s \<noteq> [] \<and> list_all is_digit s
      then Inr (foldl (\<lambda>acc c. acc * 10 + (of_char c - 48)) 0 s)
      else Inl (OtherError ''ValueError''))"

subsection \<open>Objects and the store\<close>

text \<open>
  The callables a handler registry can hold: the two bound methods of the parser itself,
  and the caller's functions, told apart by a number. Any Python object can be stored in
  a registry; \<open>truthy\<close> is the truth value \<^verbatim>\<open>if handler:\<close> tests.
\<close>

datatype callable = Offchain_method | Onchain_method | Custom nat

datatype pyobj = PyNone | PyBool bool | PyInt int | PyStr string | PyCallable callable

fun truthy :: "pyobj \<Rightarrow> bool" where
  "truthy PyNone = False"
| "truthy (PyBool b) = b"
| "truthy (PyInt i) = (i \<noteq> 0)"
| "truthy (PyStr s) = (s \<noteq> [])"
| "truthy (PyCallable f) = True"

text \<open>
  A dict is an association list in insertion order; \<open>AList.update\<close> is \<^verbatim>\<open>d[k] = v\<close>
  (the value is replaced in place, a new key goes to the end). Dicts are mutable objects:
  they live in a store, at addresses, and the parser holds references to them. \<open>lim\<close> is
  the first address not yet allocated.
\<close>

type_synonym addr = nat
type_synonym handler_dict = "(int \<times> pyobj) list"
type_synonym value_dict = "(string \<times> string option) list"

record heap =
  handler_dicts :: "addr \<Rightarrow> handler_dict"
  value_dicts :: "addr \<Rightarrow> value_dict"
  lim :: addr

definition new_handler_dict :: "handler_dict \<Rightarrow> heap \<Rightarrow> addr \<times> heap" where
  "new_handler_dict d h =
     (lim h, h\<lparr>handler_dicts := (handler_dicts h)(lim h := d), lim := Suc (lim h)\<rparr>)"

definition new_value_dict :: "value_dict \<Rightarrow> heap \<Rightarrow> addr \<times> heap" where
  "new_value_dict d h =
     (lim h, h\<lparr>value_dicts := (value_dicts h)(lim h := d), lim := Suc (lim h)\<rparr>)"

text \<open>\<^verbatim>\<open>a.update(b)\<close>: \<^verbatim>\<open>a[k] = v\<close> for every item of \<^verbatim>\<open>b\<close>, in order.\<close>

definition dict_update :: "('k \<times> 'v) list \<Rightarrow> ('k \<times> 'v) list \<Rightarrow> ('k \<times> 'v) list" where
  "dict_update a b = fold (\<lambda>(k, v). AList.update k v) b a"

definition value_dict_update :: "addr \<Rightarrow> addr \<Rightarrow> heap \<Rightarrow> heap" where
  "value_dict_update a b h =
     h\<lparr>value_dicts := (value_dicts h)(a := dict_update (value_dicts h a) (value_dicts h b))\<rparr>"

definition value_dict_copy :: "addr \<Rightarrow> heap \<Rightarrow> addr \<times> heap" where
  "value_dict_copy a h = new_value_dict (value_dicts h a) h"

definition value_dict_setitem :: "addr \<Rightarrow> string \<Rightarrow> string option \<Rightarrow> heap \<Rightarrow> heap" where
  "value_dict_setitem a k v h =
     h\<lparr>value_dicts := (value_dicts h)(a := AList.update k v (value_dicts h a))\<rparr>"

text \<open>\<^verbatim>\<open>{**a, **b}\<close>: a new dict with the items of \<^verbatim>\<open>a\<close>, then those of \<^verbatim>\<open>b\<close>.\<close>

definition merge_handler_dicts :: "addr \<Rightarrow> addr \<Rightarrow> heap \<Rightarrow> addr \<times> heap" where
  "merge_handler_dicts a b h =
     new_handler_dict (dict_update (handler_dicts h a) (handler_dicts h b)) h"

text \<open>\<^verbatim>\<open>d.get(k)\<close>: \<^verbatim>\<open>None\<close> when the key is absent.\<close>

definition handler_dict_get :: "handler_dict \<Rightarrow> int \<Rightarrow> pyobj" where
  "handler_dict_get d k = (case map_of d k of None \<Rightarrow> PyNone | Some v \<Rightarrow> v)"

subsection \<open>Results\<close>

text \<open>
  The dict a handler returns: \<^verbatim>\<open>{"type": "offchain", "uri": uri, "data": data}\<close>,
  \<^verbatim>\<open>{"type": "onchain", "metadata": all_metadata}\<close>, or whatever a caller's handler builds.
\<close>

datatype result =
    Offchain string string
  | Onchain value_dict
  | Custom_result "(string \<times> string) list"

subsection \<open>The cell reader, the network and the caller's handlers\<close>

text \<open>
  Modelled from the spec: the cell reader (the \<^verbatim>\<open>Slice\<close> of \<^verbatim>\<open>pytoniq_core\<close>), the HTTP
  client (\<^verbatim>\<open>requests\<close>) and the handlers a caller registers are not part of the source.
  They are parameters, with the interface of section 6 of the specification and two facts
  of the library that the source meets:
  \<^item> \<open>load_bits n\<close> consumes \<open>n\<close> bits of the current cell and returns them, or fails;
  \<^item> \<open>refs\<close> is the attribute \<^verbatim>\<open>cs.refs\<close>: the list of the cursor's child cells; \<open>bits\<close> is
    \<^verbatim>\<open>cs.bits\<close>, its remaining bits;
  \<^item> \<open>load_string\<close> decodes the remainder of the current cell as text;
  \<^item> \<open>load_snake_string\<close> decodes the text that spans the cell and its chain of children;
  \<^item> \<open>load_dict n\<close> decodes a dictionary with keys of \<open>n\<close> bits, one cursor per value;
    for an empty dictionary the library returns \<^verbatim>\<open>None\<close>, not a dict;
  \<^item> \<open>requests_get\<close> is the HTTP GET; a response raises or not on \<^verbatim>\<open>raise_for_status()\<close>
    and has a body;
  \<^item> \<open>call_custom k\<close> is the call \<^verbatim>\<open>handler(cs)\<close> of the caller's handler number \<open>k\<close>; it may
    use the store.
  A cursor is mutable: every operation returns the cursor it leaves behind.
\<close>

record response =
  raise_for_status :: "exn option"
  response_text :: string

record ('c, 's) env =
  begin_parse :: "'c \<Rightarrow> 's"
  load_bits :: "nat \<Rightarrow> 's \<Rightarrow> exn + bool list \<times> 's"
  refs :: "'s \<Rightarrow> 'c list"
  bits :: "'s \<Rightarrow> bool list"
  load_string :: "bool list \<Rightarrow> 's \<Rightarrow> exn + string \<times> 's"
  load_snake_string :: "'s \<Rightarrow> exn + string \<times> 's"
  load_dict :: "nat \<Rightarrow> 's \<Rightarrow> exn + (int \<times> 's) list option \<times> 's"
  requests_get :: "string \<Rightarrow> exn + response"
  call_custom :: "nat \<Rightarrow> 's \<Rightarrow> heap \<Rightarrow> (exn + result) \<times> heap"

subsection \<open>The parser\<close>

text \<open>
  An instance of \<^verbatim>\<open>TEP64Parser\<close>: the gateway URL and references to its three dicts.
  No method assigns an attribute after \<^verbatim>\<open>__init__\<close>.
\<close>

record parser =
  ipfs_endpoint :: string
  prefix_handlers :: addr
  extra_default_values :: addr
  default_handlers :: addr

text \<open>
  \<^verbatim>\<open>__init__\<close>. An argument left out is \<open>None\<close>. \<^verbatim>\<open>prefix_handlers or {}\<close> keeps the
  caller's dict (the same object) unless it is \<^verbatim>\<open>None\<close> or empty.
\<close>

definition init ::
  "string option \<Rightarrow> addr option \<Rightarrow> addr option \<Rightarrow> heap \<Rightarrow> parser \<times> heap" where
  "init endpoint handlers_arg defaults_arg h0 =
     (let (ph, h1) = (case handlers_arg of
                        None \<Rightarrow> new_handler_dict [] h0
                      | Some a \<Rightarrow> if handler_dicts h0 a = [] then new_handler_dict [] h0
                                  else (a, h0));
          (ev, h2) = (case defaults_arg of
                        None \<Rightarrow> new_value_dict [] h1
                      | Some a \<Rightarrow> if value_dicts h1 a = [] then new_value_dict [] h1
                                  else (a, h1));
          (dh, h3) = new_handler_dict
                       [(1, PyCallable Offchain_method), (0, PyCallable Onchain_method)] h2
      in (\<lparr>ipfs_endpoint = (case endpoint of None \<Rightarrow> ''https://ipfs.io/ipfs/'' | Some e \<Rightarrow> e),
           prefix_handlers = ph, extra_default_values = ev, default_handlers = dh\<rparr>, h3))"

text \<open>
  \<^verbatim>\<open>fetch_data\<close>. Only a \<^verbatim>\<open>requests.RequestException\<close> is caught and raised again as
  \<^verbatim>\<open>DataFetchingError\<close>, with the text of the cause in its message.
\<close>

definition reraise :: "exn \<Rightarrow> exn + string" where
  "reraise e = (case e of
       RequestException msg \<Rightarrow> Inl (DataFetchingError (''Error fetching data: '' @ msg))
     | _ \<Rightarrow> Inl e)"

definition fetch_data :: "('c, 's) env \<Rightarrow> parser \<Rightarrow> string \<Rightarrow> exn + string" where
  "fetch_data env self uri =
     (case (if startswith uri ''ipfs://''
            then requests_get env (replace uri ''ipfs://'' (ipfs_endpoint self))
            else requests_get env uri) of
        Inl e \<Rightarrow> reraise e
      | Inr response \<Rightarrow>
          (case raise_for_status response of
             Some e \<Rightarrow> reraise e
           | None \<Rightarrow> Inr (response_text response)))"

text \<open>\<^verbatim>\<open>parse_prefix\<close>: \<^verbatim>\<open>int(cs.load_bits(8).to01())\<close>.\<close>

definition parse_prefix :: "('c, 's) env \<Rightarrow> 's \<Rightarrow> exn + int \<times> 's" where
  "parse_prefix env cs =
     (case load_bits env 8 cs of
        Inl e \<Rightarrow> Inl e
      | Inr (prefix, cs') \<Rightarrow>
          (case int_of_str (to01 prefix) of
             Inl e \<Rightarrow> Inl e
           | Inr prefix_value \<Rightarrow> Inr (prefix_value, cs')))"

text \<open>
  \<^verbatim>\<open>default_handle_offchain_content\<close>. Its test \<^verbatim>\<open>cs.refs == 0\<close> compares the list of
  child cells with a number; in Python a list and a number are never equal.
\<close>

definition list_eq_int :: "'a list \<Rightarrow> int \<Rightarrow> bool" where
  "list_eq_int xs n = False"

definition default_handle_offchain_content ::
  "('c, 's) env \<Rightarrow> parser \<Rightarrow> 's \<Rightarrow> exn + result" where
  "default_handle_offchain_content env self cs =
     (case (if list_eq_int (refs env cs) 0
            then (case parse_prefix env cs of
                    Inl e \<Rightarrow> Inl e
                  | Inr (prefix_value, cs1) \<Rightarrow>
                      if prefix_value \<noteq> 0
                      then Inl (InvalidPrefixError
                             (''Invalid prefix for offchain content: '' @ str_int prefix_value))
                      else load_string env (bits env cs1) cs1)
            else load_snake_string env cs) of
        Inl e \<Rightarrow> Inl e
      | Inr (uri, cs2) \<Rightarrow>
          (case fetch_data env self uri of
             Inl e \<Rightarrow> Inl e
           | Inr data \<Rightarrow> Inr (Offchain uri data)))"

text \<open>\<^verbatim>\<open>load_metadata\<close>.\<close>

definition load_metadata ::
  "('c, 's) env \<Rightarrow> 's \<Rightarrow> exn + (int \<times> 's) list option \<times> 's" where
  "load_metadata env cs = load_dict env 256 cs"

text \<open>
  \<^verbatim>\<open>default_handle_onchain_content\<close>. \<open>fixed_defaults\<close> is the dict literal, built anew at
  each call. The loop over \<^verbatim>\<open>metadata_keys.items()\<close> is \<open>onchain_loop\<close>: \<^verbatim>\<open>metadata.get(key)\<close>
  raises \<^verbatim>\<open>AttributeError\<close> when \<^verbatim>\<open>metadata\<close> is \<^verbatim>\<open>None\<close>; a value cursor that is read is
  consumed, and stays so in the dictionary.
\<close>

definition fixed_defaults :: value_dict where
  "fixed_defaults =
     [(''uri'', None), (''name'', None), (''description'', None), (''image'', None),
      (''image_data'', None), (''symbol'', None), (''decimals'', Some ''9''),
      (''amount_style'', Some ''n''), (''render_type'', Some ''currency'')]"

fun onchain_loop ::
  "('c, 's) env \<Rightarrow> (string \<times> int) list \<Rightarrow> (int \<times> 's) list option \<Rightarrow> addr \<Rightarrow> heap
     \<Rightarrow> exn option \<times> heap" where
  "onchain_loop env [] metadata all_metadata h = (None, h)"
| "onchain_loop env ((label, key) # items) None all_metadata h =
     (Some (OtherError ''AttributeError''), h)"
| "onchain_loop env ((label, key) # items) (Some entries) all_metadata h =
     (case map_of entries key of
        None \<Rightarrow> onchain_loop env items (Some entries) all_metadata h
      | Some value_chunk \<Rightarrow>
          (case load_snake_string env value_chunk of
             Inl e \<Rightarrow> (Some e, h)
           | Inr (value, chunk') \<Rightarrow>
               onchain_loop env items (Some (AList.update key chunk' entries)) all_metadata
                 (value_dict_setitem all_metadata label (Some value) h)))"

definition default_handle_onchain_content ::
  "('c, 's) env \<Rightarrow> parser \<Rightarrow> 's \<Rightarrow> heap \<Rightarrow> (exn + result) \<times> heap" where
  "default_handle_onchain_content env self cs h0 =
     (let (default_values, h1) = new_value_dict fixed_defaults h0;
          h2 = value_dict_update default_values (extra_default_values self) h1;
          metadata_keys = map (\<lambda>(label, v). (label, calculate_key label))
                            (value_dicts h2 default_values)
      in case load_metadata env cs of
           Inl e \<Rightarrow> (Inl e, h2)
         | Inr (metadata, cs') \<Rightarrow>
             (let (all_metadata, h3) = value_dict_copy default_values h2
              in case onchain_loop env metadata_keys metadata all_metadata h3 of
                   (Some e, h4) \<Rightarrow> (Inl e, h4)
                 | (None, h4) \<Rightarrow> (Inr (Onchain (value_dicts h4 all_metadata)), h4)))"

text \<open>
  Calling a registry entry: the parser's own bound methods, a caller's function, or an
  object that is not callable (\<^verbatim>\<open>TypeError\<close>).
\<close>

fun call ::
  "('c, 's) env \<Rightarrow> parser \<Rightarrow> pyobj \<Rightarrow> 's \<Rightarrow> heap \<Rightarrow> (exn + result) \<times> heap" where
  "call env self (PyCallable Offchain_method) cs h =
     (default_handle_offchain_content env self cs, h)"
| "call env self (PyCallable Onchain_method) cs h =
     default_handle_onchain_content env self cs h"
| "call env self (PyCallable (Custom k)) cs h = call_custom env k cs h"
| "call env self obj cs h = (Inl (OtherError ''TypeError''), h)"

text \<open>\<^verbatim>\<open>parse_content\<close>.\<close>

definition parse_content ::
  "('c, 's) env \<Rightarrow> parser \<Rightarrow> 'c \<Rightarrow> heap \<Rightarrow> (exn + result) \<times> heap" where
  "parse_content env self content h0 =
     (let cs = begin_parse env content
      in case parse_prefix env cs of
           Inl e \<Rightarrow> (Inl e, h0)
         | Inr (prefix_value, cs1) \<Rightarrow>
             (let (handlers, h1) =
                    merge_handler_dicts (default_handlers self) (prefix_handlers self) h0;
                  handler = handler_dict_get (handler_dicts h1 handlers) prefix_value
              in if truthy handler then call env self handler cs1 h1
                 else (Inl (InvalidPrefixError (''Invalid prefix: '' @ str_int prefix_value)),
                       h1)))"

subsection \<open>What a caller observes\<close>

text \<open>
  The configuration of a parser in a store: its gateway URL and the contents of its
  three dicts.
\<close>

definition config :: "parser \<Rightarrow> heap \<Rightarrow> string \<times> handler_dict \<times> value_dict \<times> handler_dict" where
  "config self h =
     (ipfs_endpoint self, handler_dicts h (prefix_handlers self),
      value_dicts h (extra_default_values self), handler_dicts h (default_handlers self))"

text \<open>
  The metadata that section 4.3 of the specification describes (steps 4 and 5): for
  each attribute name of the table, the snake string of the dictionary entry under the
  name's key when there is one, the default otherwise.
\<close>

definition expected_metadata ::
  "('c, 's) env \<Rightarrow> (int \<times> 's) list \<Rightarrow> value_dict \<Rightarrow> value_dict" where
  "expected_metadata env dict table =
     map (\<lambda>(label, dflt).
            (label, case map_of dict (calculate_key label) of
                      None \<Rightarrow> dflt
                    | Some chunk \<Rightarrow>
                        (case load_snake_string env chunk of
                           Inl e \<Rightarrow> dflt
                         | Inr (value, c) \<Rightarrow> Some value))) table"

subsection \<open>A cell reader for concrete cells\<close>

text \<open>
  Modelled from the spec: a reader with the interface above, on cells given as their
  bits and their children. It serves to run the parser on concrete cells. Text is
  decoded as UTF-8, strictly; a snake string follows a chain in which each cell has at
  most one child. The decoding of a dictionary, the network and the caller's handlers
  stay parameters.
\<close>

datatype cell = Cell (cell_bits: "bool list") (cell_refs: "cell list")

record slice =
  rest_bits :: "bool list"
  children :: "cell list"

fun decode_text :: "bool list \<Rightarrow> string" where
  "decode_text (b7 # b6 # b5 # b4 # b3 # b2 # b1 # b0 # bs) =
     Char b0 b1 b2 b3 b4 b5 b6 b7 # decode_text bs"
| "decode_text bs = []"

fun encode_text :: "string \<Rightarrow> bool list" where
  "encode_text [] = []"
| "encode_text (Char b0 b1 b2 b3 b4 b5 b6 b7 # cs) =
     [b7, b6, b5, b4, b3, b2, b1, b0] @ encode_text cs"

definition continuation :: "int \<Rightarrow> bool" where
  "continuation b = (128 \<le> b \<and> b \<le> 191)"

fun valid_utf8 :: "int list \<Rightarrow> bool" where
  "valid_utf8 [] = True"
| "valid_utf8 [a] = (a < 128)"
| "valid_utf8 [a, b] =
     (if a < 128 then valid_utf8 [b] else 194 \<le> a \<and> a \<le> 223 \<and> continuation b)"
| "valid_utf8 [a, b, c] =
     (if a < 128 then valid_utf8 [b, c]
      else if 194 \<le> a \<and> a \<le> 223 then continuation b \<and> valid_utf8 [c]
      else 224 \<le> a \<and> a \<le> 239 \<and> (if a = 224 then 160 else 128) \<le> b
           \<and> b \<le> (if a = 237 then 159 else 191) \<and> continuation c)"
| "valid_utf8 (a # b # c # d # bs) =
     (if a < 128 then valid_utf8 (b # c # d # bs)
      else if 194 \<le> a \<and> a \<le> 223 then continuation b \<and> valid_utf8 (c # d # bs)
      else if 224 \<le> a \<and> a \<le> 239
      then (if a = 224 then 160 else 128) \<le> b \<and> b \<le> (if a = 237 then 159 else 191)
           \<and> continuation c \<and> valid_utf8 (d # bs)
      else 240 \<le> a \<and> a \<le> 244 \<and> (if a = 240 then 144 else 128) \<le> b
           \<and> b \<le> (if a = 244 then 143 else 191) \<and> continuation c \<and> continuation d
           \<and> valid_utf8 bs)"

definition decode_utf8 :: "bool list \<Rightarrow> exn + string" where
  "decode_utf8 bs =
     (if valid_utf8 (map of_char (decode_text bs)) then Inr (decode_text bs)
      else Inl (OtherError ''UnicodeDecodeError''))"

fun snake_bits :: "cell \<Rightarrow> exn + bool list" where
  "snake_bits (Cell bs []) = Inr bs"
| "snake_bits (Cell bs [c]) =
     (case snake_bits c of Inl e \<Rightarrow> Inl e | Inr further \<Rightarrow> Inr (bs @ further))"
| "snake_bits (Cell bs (c # d # cs)) = Inl (OtherError ''AssertionError'')"

definition cell_reader ::
  "(slice \<Rightarrow> exn + (int \<times> slice) list option \<times> slice) \<Rightarrow> (string \<Rightarrow> exn + response)
     \<Rightarrow> (nat \<Rightarrow> slice \<Rightarrow> heap \<Rightarrow> (exn + result) \<times> heap) \<Rightarrow> (cell, slice) env" where
  "cell_reader dict_of get custom =
     \<lparr>begin_parse = (\<lambda>c. \<lparr>rest_bits = cell_bits c, children = cell_refs c\<rparr>),
      load_bits = (\<lambda>n s. if length (rest_bits s) < n then Inl (OtherError ''not enough bits'')
                          else Inr (take n (rest_bits s), s\<lparr>rest_bits := drop n (rest_bits s)\<rparr>)),
      refs = children,
      bits = rest_bits,
      load_string = (\<lambda>bs s. case decode_utf8 bs of
                               Inl e \<Rightarrow> Inl e
                             | Inr t \<Rightarrow> Inr (t, s\<lparr>rest_bits := []\<rparr>)),
      load_snake_string =
        (\<lambda>s. case snake_bits (Cell (rest_bits s) (children s)) of
                Inl e \<Rightarrow> Inl e
              | Inr bs \<Rightarrow> (case decode_utf8 bs of
                             Inl e \<Rightarrow> Inl e
                           | Inr t \<Rightarrow> Inr (t, \<lparr>rest_bits = [], children = []\<rparr>))),
      load_dict = (\<lambda>n. dict_of),
      requests_get = get,
      call_custom = custom\<rparr>"

definition empty_heap :: heap where
  "empty_heap = \<lparr>handler_dicts = (\<lambda>a. []), value_dicts = (\<lambda>a. []), lim = 0\<rparr>"

text \<open>A network that answers every GET with status 200 and the requested URL as body.\<close>

definition echo_get :: "string \<Rightarrow> exn + response" where
  "echo_get url = Inr \<lparr>raise_for_status = None, response_text = url\<rparr>"

text \<open>The reader's answer on an empty dictionary.\<close>

definition no_dict :: "slice \<Rightarrow> exn + (int \<times> slice) list option \<times> slice" where
  "no_dict s = Inr (None, s)"

text \<open>
  The caller's handlers. Number 0 is \<^verbatim>\<open>custom_prefix_handler\<close> of the source's example: it
  takes two arguments, \<^verbatim>\<open>(cs, ipfs_endpoint)\<close>, so that the call \<^verbatim>\<open>handler(cs)\<close> raises
  \<^verbatim>\<open>TypeError\<close>. Every other number is a handler of one argument that returns a dict of
  its own.
\<close>

definition custom_prefix_handler :: "slice \<Rightarrow> heap \<Rightarrow> (exn + result) \<times> heap" where
  "custom_prefix_handler cs h = (Inl (OtherError ''TypeError''), h)"

definition unary_handler :: "slice \<Rightarrow> heap \<Rightarrow> (exn + result) \<times> heap" where
  "unary_handler cs h =
     (Inr (Custom_result [(''type'', ''custom''), (''data'', ''custom handler logic'')]), h)"

definition caller_handlers :: "nat \<Rightarrow> slice \<Rightarrow> heap \<Rightarrow> (exn + result) \<times> heap" where
  "caller_handlers k = (if k = 0 then custom_prefix_handler else unary_handler)"

definition byte_bits :: "int \<Rightarrow> bool list" where
  "byte_bits n = map (\<lambda>i. bit n i) (rev [0..<8])"

subsection \<open>Concrete parsers and cells\<close>

text \<open>
  The parser of the source's example: \<^verbatim>\<open>TEP64Parser(prefix_handlers={0x02: custom_prefix_handler})\<close>
  on a store that holds the caller's dict only. The reader of \<open>example_env\<close> finds an empty
  dictionary in every cell.
\<close>

definition example_env :: "(cell, slice) env" where
  "example_env = cell_reader no_dict echo_get caller_handlers"

definition example_setup :: "parser \<times> heap" where
  "example_setup =
     (let (custom_handlers, h1) = new_handler_dict [(2, PyCallable (Custom 0))] empty_heap
      in init None (Some custom_handlers) None h1)"

definition example_parser :: parser where
  "example_parser = fst example_setup"

definition example_heap :: heap where
  "example_heap = snd example_setup"

definition refused_get :: "string \<Rightarrow> exn + response" where
  "refused_get url = Inl (RequestException ''connection refused'')"

definition not_found_get :: "string \<Rightarrow> exn + response" where
  "not_found_get url =
     Inr \<lparr>raise_for_status = Some (RequestException ''404 Client Error''),
          response_text = ''not found''\<rparr>"

text \<open>
  Two more parsers: one whose caller registers \<^verbatim>\<open>None\<close> for prefix 1, one whose caller
  registers a handler of one argument for prefix 10. A cursor without children: a marker
  byte, then the text of a URL.
\<close>

definition none_setup :: "parser \<times> heap" where
  "none_setup =
     (let (custom_handlers, h1) = new_handler_dict [(1, PyNone)] empty_heap
      in init None (Some custom_handlers) None h1)"

definition ten_setup :: "parser \<times> heap" where
  "ten_setup =
     (let (custom_handlers, h1) = new_handler_dict [(10, PyCallable (Custom 1))] empty_heap
      in init None (Some custom_handlers) None h1)"

definition marked_slice :: "int \<Rightarrow> slice" where
  "marked_slice marker =
     \<lparr>rest_bits = byte_bits marker @ encode_text ''https://example.com/m.json'',
      children = []\<rparr>"

text \<open>
  A parser with a caller's registry and a caller's default for \<^verbatim>\<open>decimals\<close>, and two
  dictionaries: one with an entry under the key of \<^verbatim>\<open>name\<close>, one without any
  recognized key.
\<close>

definition override_setup :: "parser \<times> heap" where
  "override_setup =
     (let (custom_handlers, h1) = new_handler_dict [(2, PyCallable (Custom 0))] empty_heap;
          (extra, h2) = new_value_dict [(''decimals'', Some ''6'')] h1
      in init None (Some custom_handlers) (Some extra) h2)"

definition override_table :: value_dict where
  "override_table =
     [(''uri'', None), (''name'', None), (''description'', None), (''image'', None),
      (''image_data'', None), (''symbol'', None), (''decimals'', Some ''6''),
      (''amount_style'', Some ''n''), (''render_type'', Some ''currency'')]"

definition text_slice :: "string \<Rightarrow> slice" where
  "text_slice s = \<lparr>rest_bits = encode_text s, children = []\<rparr>"

definition token_dict :: "slice \<Rightarrow> exn + (int \<times> slice) list option \<times> slice" where
  "token_dict s = Inr (Some [(calculate_key ''name'', text_slice ''Pablocoin''),
                             (7, text_slice ''other'')], s)"

definition unknown_dict :: "slice \<Rightarrow> exn + (int \<times> slice) list option \<times> slice" where
  "unknown_dict s = Inr (Some [(7, text_slice ''other'')], s)"

definition token_env :: "(cell, slice) env" where
  "token_env = cell_reader token_dict echo_get caller_handlers"

definition unknown_env :: "(cell, slice) env" where
  "unknown_env = cell_reader unknown_dict echo_get caller_handlers"

section \<open>Properties\<close>

subsection \<open>The digest and the attribute keys\<close>

lemma length_round256: "length (round256 s kw) = length s"
  by (cases "(s, kw)" rule: round256.cases) (simp_all add: Let_def)

lemma length_foldl_round256: "length (foldl round256 s kws) = length s"
  by (induction kws arbitrary: s) (simp_all add: length_round256)

lemma length_compress: "length (compress hs block) = length hs"
  by (simp add: compress_def Let_def length_foldl_round256)

lemma length_foldl_compress: "length (foldl compress hs blocks) = length hs"
  by (induction blocks arbitrary: hs) (simp_all add: length_compress)

lemma length_be_bytes: "length (be_bytes n x) = n"
  by (simp add: be_bytes_def)

lemma length_concat_const:
  "list_all (\<lambda>ys. length ys = k) xss \<Longrightarrow> length (concat xss) = k * length xss"
  by (induction xss) simp_all

lemma length_sha256: "length (sha256 m) = 32"
proof -
  have "list_all (\<lambda>ys. length ys = 4) (map (be_bytes 4) ws)" for ws
    by (simp add: list_all_iff length_be_bytes)
  then have "length (concat (map (be_bytes 4) ws)) = 4 * length ws" for ws
    using length_concat_const [of 4 "map (be_bytes 4) ws"] by simp
  then show ?thesis
    by (simp add: sha256_def length_foldl_compress H256_def)
qed

lemma be_bytes_range: "b \<in> set (be_bytes n x) \<Longrightarrow> 0 \<le> b \<and> b < 256"
  by (auto simp: be_bytes_def)

lemma sha256_range: "b \<in> set (sha256 m) \<Longrightarrow> 0 \<le> b \<and> b < 256"
  by (auto simp: sha256_def dest: be_bytes_range)

lemma from_bytes_big_snoc: "from_bytes_big (bs @ [b]) = from_bytes_big bs * 256 + b"
  by (simp add: from_bytes_big_def)

lemma from_bytes_big_sum:
  "from_bytes_big bs = (\<Sum>i<length bs. bs ! i * 256 ^ (length bs - 1 - i))"
proof (induction bs rule: rev_induct)
  case Nil
  then show ?case by (simp add: from_bytes_big_def)
next
  case (snoc b bs)
  have "(\<Sum>i<length bs. (bs @ [b]) ! i * 256 ^ (length bs - i))
        = (\<Sum>i<length bs. (bs ! i * 256 ^ (length bs - 1 - i)) * 256)"
  proof (rule sum.cong)
    fix i assume "i \<in> {..<length bs}"
    then have i: "i < length bs" by simp
    then have "length bs - i = Suc (length bs - 1 - i)" by arith
    with i show "(bs @ [b]) ! i * 256 ^ (length bs - i) = (bs ! i * 256 ^ (length bs - 1 - i)) * 256"
      by (simp add: nth_append)
  qed simp
  then show ?case
    using snoc by (simp add: from_bytes_big_snoc sum_distrib_right)
qed

lemma from_bytes_big_bounds:
  "list_all (\<lambda>b. 0 \<le> b \<and> b < 256) bs \<Longrightarrow>
   0 \<le> from_bytes_big bs \<and> from_bytes_big bs < 256 ^ length bs"
proof (induction bs rule: rev_induct)
  case Nil
  then show ?case by (simp add: from_bytes_big_def)
next
  case (snoc b bs)
  then have b: "0 \<le> b" "b < 256"
    and ih: "0 \<le> from_bytes_big bs" "from_bytes_big bs < 256 ^ length bs"
    by simp_all
  from ih(2) have "from_bytes_big bs + 1 \<le> 256 ^ length bs" by simp
  then have "(from_bytes_big bs + 1) * 256 \<le> 256 ^ length bs * 256"
    by (rule mult_right_mono) simp
  with b ih(1) show ?case
    by (simp add: from_bytes_big_snoc algebra_simps)
qed

text \<open>
  C8. \<^verbatim>\<open>calculate_key\<close> is a function of the name alone: for every name it is the
  big-endian value of the 32 bytes of the SHA-256 digest of the name's UTF-8 bytes, an
  unsigned integer below \<open>2 ^ 256\<close>, and on the name \<^verbatim>\<open>"name"\<close> it is the reference
  vector \<^verbatim>\<open>82a3537f...0be3ce89\<close>.
\<close>

theorem calculate_key_reference:
  "calculate_key s = (\<Sum>i<32. sha256 (map of_char s) ! i * 256 ^ (31 - i))
   \<and> 0 \<le> calculate_key s \<and> calculate_key s < 2 ^ 256
   \<and> calculate_key ''name''
       = 0x82a3537ff0dbce7eec35d69edc3a189ee6f17d82f353a553f9aa96cb0be3ce89"
proof -
  let ?d = "sha256 (map of_char s)"
  have len: "length ?d = 32" by (rule length_sha256)
  have "list_all (\<lambda>b. 0 \<le> b \<and> b < 256) ?d"
    using sha256_range by (auto simp: list_all_iff)
  from from_bytes_big_bounds [OF this] len
  have bounds: "0 \<le> calculate_key s \<and> calculate_key s < 2 ^ 256"
    by (simp add: calculate_key_def)
  have pos: "calculate_key s = (\<Sum>i<32. ?d ! i * 256 ^ (31 - i))"
    using from_bytes_big_sum [of ?d] len by (simp add: calculate_key_def)
  have ref: "calculate_key ''name''
       = 0x82a3537ff0dbce7eec35d69edc3a189ee6f17d82f353a553f9aa96cb0be3ce89"
    by code_simp
  from pos bounds ref show ?thesis by blast
qed

subsection \<open>The keys of the nine standard attributes\<close>

lemma key_uri:
  "calculate_key ''uri'' =
     51065135818459385347574250312853146822620586594996463797054414300406918686668"
  by code_simp

lemma key_name:
  "calculate_key ''name'' =
     59089242681608890680090686026688704441792375738894456860693970539822503415433"
  by code_simp

lemma key_description:
  "calculate_key ''description'' =
     90922719342317012409671596374183159143637506542604000676488204638996496437508"
  by code_simp

lemma key_image:
  "calculate_key ''image'' =
     43884663033947008978309661017057008345326326811558777475113826163084742639165"
  by code_simp

lemma key_image_data:
  "calculate_key ''image_data'' =
     98449690268711667050166283313913751402364107788915545466587557261600130787812"
  by code_simp

lemma key_symbol:
  "calculate_key ''symbol'' =
     82961397245523513629401799123410942652413991882008909918554405086738284660097"
  by code_simp

lemma key_decimals:
  "calculate_key ''decimals'' =
     107878361799212983662495570378745491379550006934010968359181619763835345146430"
  by code_simp

lemma key_amount_style:
  "calculate_key ''amount_style'' =
     62901303891490913777575453651345555215047913278006836178809905342063884613376"
  by code_simp

lemma key_render_type:
  "calculate_key ''render_type'' =
     95542036767220248279389797734652506193411128639728265318048579598694325246656"
  by code_simp

lemmas fixed_keys =
  key_uri key_name key_description key_image
  key_image_data key_symbol key_decimals key_amount_style
  key_render_type

subsection \<open>Dicts\<close>

lemma map_of_dict_update: "map_of (dict_update a b) = map_of a ++ map_of (rev b)"
proof (induction b arbitrary: a)
  case Nil
  then show ?case by (simp add: dict_update_def)
next
  case (Cons kv b)
  obtain k v where kv: "kv = (k, v)" by (cases kv)
  have "dict_update a (kv # b) = dict_update (AList.update k v a) b"
    by (simp add: dict_update_def kv)
  then have "map_of (dict_update a (kv # b)) = map_of (AList.update k v a) ++ map_of (rev b)"
    using Cons.IH [of "AList.update k v a"] by simp
  also have "\<dots> = (map_of a)(k \<mapsto> v) ++ map_of (rev b)"
    by (simp only: AList.update_conv')
  also have "\<dots> = map_of a ++ map_of (rev (kv # b))"
    by (simp add: kv map_add_upd_left)
  finally show ?case .
qed

lemma map_of_rev_distinct: "distinct (map fst b) \<Longrightarrow> map_of (rev b) = map_of b"
  by (subst map_of_inject_set) (simp_all add: rev_map [symmetric])

lemma dict_update_get:
  "distinct (map fst b) \<Longrightarrow>
   map_of (dict_update a b) k = (case map_of b k of None \<Rightarrow> map_of a k | Some v \<Rightarrow> Some v)"
  by (simp add: map_of_dict_update map_of_rev_distinct map_add_def)

lemma dict_update_get_None:
  "map_of a k = None \<Longrightarrow> map_of b k = None \<Longrightarrow> map_of (dict_update a b) k = None"
  by (simp add: map_of_dict_update map_add_def map_of_eq_None_iff split: option.split)

lemma update_in_place:
  "k \<notin> fst ` set P \<Longrightarrow> AList.update k v (P @ (k, x) # R) = P @ (k, v) # R"
  by (induction P) auto

lemma distinct_dict_update:
  "distinct (map fst a) \<Longrightarrow> distinct (map fst (dict_update a b))"
proof (induction b arbitrary: a)
  case Nil
  then show ?case by (simp add: dict_update_def)
next
  case (Cons kv b)
  obtain k v where kv: "kv = (k, v)" by (cases kv)
  have "dict_update a (kv # b) = dict_update (AList.update k v a) b"
    by (simp add: dict_update_def kv)
  with Cons show ?case by (simp add: distinct_update)
qed

lemma distinct_fixed_defaults: "distinct (map fst fixed_defaults)"
  by (simp add: fixed_defaults_def)

subsection \<open>Dispatch\<close>

lemma parse_content_dispatch:
  assumes "parse_prefix env (begin_parse env content) = Inr (prefix_value, cs1)"
  shows "parse_content env self content h =
     (let h1 = snd (merge_handler_dicts (default_handlers self) (prefix_handlers self) h);
          handler = handler_dict_get
                      (dict_update (handler_dicts h (default_handlers self))
                                   (handler_dicts h (prefix_handlers self))) prefix_value
      in if truthy handler then call env self handler cs1 h1
         else (Inl (InvalidPrefixError (''Invalid prefix: '' @ str_int prefix_value)), h1))"
  using assms
  by (simp add: parse_content_def Let_def merge_handler_dicts_def new_handler_dict_def)

text \<open>
  C1. The parser of the source's example has a handler registered for prefix 2. On a
  cell whose first byte is \<^verbatim>\<open>0x02\<close> the eight bits read are \<^verbatim>\<open>00000010\<close>; \<open>parse_prefix\<close>
  reads them in base ten and returns 10, and \<open>parse_content\<close> raises
  \<^verbatim>\<open>InvalidPrefixError\<close> where the handler for 2 should run.
\<close>

theorem prefix_two_not_dispatched:
  "handler_dict_get (dict_update (handler_dicts example_heap (default_handlers example_parser))
                                 (handler_dicts example_heap (prefix_handlers example_parser))) 2
     = PyCallable (Custom 0)
   \<and> load_bits example_env 8 (begin_parse example_env (Cell (byte_bits 2) []))
       = Inr ([False, False, False, False, False, False, True, False],
              \<lparr>rest_bits = [], children = []\<rparr>)
   \<and> parse_prefix example_env (begin_parse example_env (Cell (byte_bits 2) []))
       = Inr (10, \<lparr>rest_bits = [], children = []\<rparr>)
   \<and> fst (parse_content example_env example_parser (Cell (byte_bits 2) []) example_heap)
       = Inl (InvalidPrefixError ''Invalid prefix: 10'')"
  by code_simp

text \<open>
  When the number that \<open>parse_prefix\<close> returns is a key of neither registry,
  \<open>parse_content\<close> raises \<^verbatim>\<open>InvalidPrefixError\<close> with that number in its message.
\<close>

lemma parse_content_no_entry:
  assumes "parse_prefix env (begin_parse env content) = Inr (prefix_value, cs1)"
    and "map_of (handler_dicts h (default_handlers self)) prefix_value = None"
    and "map_of (handler_dicts h (prefix_handlers self)) prefix_value = None"
  shows "fst (parse_content env self content h)
         = Inl (InvalidPrefixError (''Invalid prefix: '' @ str_int prefix_value))"
  using assms(2,3)
  by (simp add: parse_content_dispatch [OF assms(1)] Let_def handler_dict_get_def
        dict_update_get_None)

text \<open>
  C3. That number is not the prefix byte. With handlers registered for 0, 1 and 10 only,
  a cell whose first byte is \<^verbatim>\<open>0x02\<close> has no handler for its prefix 2, and yet it is
  dispatched: to the handler registered for 10, whose result is returned. With the built-in
  handlers and one for 2, a cell whose first byte is \<^verbatim>\<open>0x03\<close> raises
  \<^verbatim>\<open>InvalidPrefixError\<close>, and the message carries 11, not the prefix 3.
\<close>

theorem unregistered_prefix_dispatched:
  "map_of (handler_dicts (snd ten_setup) (default_handlers (fst ten_setup))) 2 = None
   \<and> map_of (handler_dicts (snd ten_setup) (prefix_handlers (fst ten_setup))) 2 = None
   \<and> fst (parse_content example_env (fst ten_setup) (Cell (byte_bits 2) []) (snd ten_setup))
       = Inr (Custom_result [(''type'', ''custom''), (''data'', ''custom handler logic'')])
   \<and> map_of (handler_dicts example_heap (default_handlers example_parser)) 3 = None
   \<and> map_of (handler_dicts example_heap (prefix_handlers example_parser)) 3 = None
   \<and> fst (parse_content example_env example_parser (Cell (byte_bits 3) []) example_heap)
       = Inl (InvalidPrefixError ''Invalid prefix: 11'')"
  by code_simp

text \<open>
  C10. When the caller's registry maps the parsed prefix to an object that is false in a
  condition (such as \<^verbatim>\<open>None\<close>), \<open>parse_content\<close> raises \<^verbatim>\<open>InvalidPrefixError\<close>: the
  entry is neither called nor returned.
\<close>

theorem parse_content_falsy_handler:
  assumes "parse_prefix env (begin_parse env content) = Inr (prefix_value, cs1)"
    and "distinct (map fst (handler_dicts h (prefix_handlers self)))"
    and "map_of (handler_dicts h (prefix_handlers self)) prefix_value = Some obj"
    and "\<not> truthy obj"
  shows "fst (parse_content env self content h)
         = Inl (InvalidPrefixError (''Invalid prefix: '' @ str_int prefix_value))"
  using assms(3,4)
  by (simp add: parse_content_dispatch [OF assms(1)] Let_def handler_dict_get_def
        dict_update_get [OF assms(2)])

theorem parse_content_falsy_handler_witness:
  "parse_prefix example_env (begin_parse example_env (Cell (byte_bits 1) []))
     = Inr (1, \<lparr>rest_bits = [], children = []\<rparr>)
   \<and> distinct (map fst (handler_dicts (snd none_setup) (prefix_handlers (fst none_setup))))
   \<and> map_of (handler_dicts (snd none_setup) (prefix_handlers (fst none_setup))) 1 = Some PyNone
   \<and> \<not> truthy PyNone
   \<and> fst (parse_content example_env (fst none_setup) (Cell (byte_bits 1) []) (snd none_setup))
       = Inl (InvalidPrefixError ''Invalid prefix: 1'')"
proof -
  have p: "parse_prefix example_env (begin_parse example_env (Cell (byte_bits 1) []))
     = Inr (1, \<lparr>rest_bits = [], children = []\<rparr>)"
    by code_simp
  have d: "distinct (map fst (handler_dicts (snd none_setup) (prefix_handlers (fst none_setup))))"
    by code_simp
  have c: "map_of (handler_dicts (snd none_setup) (prefix_handlers (fst none_setup))) 1
           = Some PyNone"
    by code_simp
  have t: "\<not> truthy PyNone" by simp
  have s: "str_int 1 = ''1''" by code_simp
  show ?thesis
    using parse_content_falsy_handler [OF p d c t] p d c s by simp
qed

subsection \<open>The off-chain handler and the fetch\<close>

text \<open>
  The test \<^verbatim>\<open>cs.refs == 0\<close> never holds: whatever the cursor, the URI is its snake
  string, and no marker is read.
\<close>

lemma offchain_reads_snake_string:
  "default_handle_offchain_content env self cs =
     (case load_snake_string env cs of
        Inl e \<Rightarrow> Inl e
      | Inr (uri, cs2) \<Rightarrow>
          (case fetch_data env self uri of
             Inl e \<Rightarrow> Inl e
           | Inr data \<Rightarrow> Inr (Offchain uri data)))"
  by (simp add: default_handle_offchain_content_def list_eq_int_def)

text \<open>
  C4. On a cursor without children whose next byte is the marker \<^verbatim>\<open>0x01\<close>, followed by
  the text of a URL, the handler raises nothing: the marker byte is the first character
  of the URI it fetches and returns. With the marker \<^verbatim>\<open>0x00\<close> the URI is not the string
  after the marker either: it begins with the NUL character. (The network here answers
  with the URL it is asked for.)
\<close>

theorem offchain_marker_not_read:
  "refs example_env (marked_slice 1) = []
   \<and> default_handle_offchain_content example_env example_parser (marked_slice 1)
       = Inr (Offchain (CHR 0x01 # ''https://example.com/m.json'')
                       (CHR 0x01 # ''https://example.com/m.json''))
   \<and> refs example_env (marked_slice 0) = []
   \<and> default_handle_offchain_content example_env example_parser (marked_slice 0)
       = Inr (Offchain (CHR 0x00 # ''https://example.com/m.json'')
                       (CHR 0x00 # ''https://example.com/m.json''))"
  by code_simp

text \<open>
  Where \<^verbatim>\<open>ipfs://\<close> occurs at the start of the URI and nowhere after it, the request goes
  to the gateway followed by the remainder of the URI.
\<close>

lemma replace_prefix:
  "old \<noteq> [] \<Longrightarrow> startswith s old \<Longrightarrow>
   replace s old new = new @ replace (drop (length old) s) old new"
  by (cases s) (auto simp: startswith_def drop_Cons')

lemma replace_absent:
  "old \<noteq> [] \<Longrightarrow> \<forall>i. \<not> startswith (drop i s) old \<Longrightarrow> replace s old new = s"
proof (induction s)
  case Nil
  then show ?case by simp
next
  case (Cons c cs)
  from Cons.prems(2) have "\<not> startswith (drop 0 (c # cs)) old" by blast
  then have here: "\<not> startswith (c # cs) old" by simp
  have "\<not> startswith (drop i cs) old" for i
    using Cons.prems(2) [rule_format, of "Suc i"] by simp
  with Cons.IH Cons.prems(1) have "replace cs old new = cs" by blast
  with here Cons.prems(1) show ?case by simp
qed

lemma fetch_data_single_occurrence:
  assumes "startswith uri ''ipfs://''"
    and "\<forall>i. \<not> startswith (drop i (drop (length ''ipfs://'') uri)) ''ipfs://''"
  shows "fetch_data env self uri =
     (case requests_get env (ipfs_endpoint self @ drop (length ''ipfs://'') uri) of
        Inl e \<Rightarrow> reraise e
      | Inr response \<Rightarrow>
          (case raise_for_status response of
             Some e \<Rightarrow> reraise e
           | None \<Rightarrow> Inr (response_text response)))"
proof -
  have ne: "''ipfs://'' \<noteq> []" by simp
  have "replace uri ''ipfs://'' (ipfs_endpoint self)
        = ipfs_endpoint self
          @ replace (drop (length ''ipfs://'') uri) ''ipfs://'' (ipfs_endpoint self)"
    by (rule replace_prefix [OF ne assms(1)])
  also have "replace (drop (length ''ipfs://'') uri) ''ipfs://'' (ipfs_endpoint self)
             = drop (length ''ipfs://'') uri"
    by (rule replace_absent [OF ne assms(2)])
  finally have "replace uri ''ipfs://'' (ipfs_endpoint self)
                = ipfs_endpoint self @ drop (length ''ipfs://'') uri" .
  with assms(1) show ?thesis
    by (simp only: fetch_data_def if_True)
qed

text \<open>
  C5. On a URI that starts with \<^verbatim>\<open>ipfs://\<close> and holds \<^verbatim>\<open>ipfs://\<close> once more,
  \<open>fetch_data\<close> requests a URL in which both occurrences are replaced by the gateway
  (the network here answers with the URL it is asked for), not the gateway followed by
  the remainder of the URI.
\<close>

theorem fetch_data_replaces_every_occurrence:
  "startswith ''ipfs://a?next=ipfs://b'' ''ipfs://''
   \<and> fetch_data example_env example_parser ''ipfs://a?next=ipfs://b''
       = Inr ''https://ipfs.io/ipfs/a?next=https://ipfs.io/ipfs/b''
   \<and> ipfs_endpoint example_parser @ drop (length ''ipfs://'') ''ipfs://a?next=ipfs://b''
       = ''https://ipfs.io/ipfs/a?next=ipfs://b''"
  by code_simp

text \<open>
  C6. With \<open>url\<close> the URL that \<open>fetch_data\<close> requests: a \<^verbatim>\<open>RequestException\<close> raised
  by the GET, or by \<^verbatim>\<open>raise_for_status()\<close> on the response, becomes a
  \<^verbatim>\<open>DataFetchingError\<close> whose message holds the text of the cause; a response that
  does not raise gives its body as the result.
\<close>

theorem fetch_data_outcomes:
  assumes "url = (if startswith uri ''ipfs://''
                  then replace uri ''ipfs://'' (ipfs_endpoint self) else uri)"
  shows "(requests_get env url = Inl (RequestException msg) \<longrightarrow>
            fetch_data env self uri = Inl (DataFetchingError (''Error fetching data: '' @ msg)))
       \<and> (requests_get env url = Inr r \<and> raise_for_status r = Some (RequestException msg) \<longrightarrow>
            fetch_data env self uri = Inl (DataFetchingError (''Error fetching data: '' @ msg)))
       \<and> (requests_get env url = Inr r \<and> raise_for_status r = None \<longrightarrow>
            fetch_data env self uri = Inr (response_text r))"
  using assms by (auto simp: fetch_data_def reraise_def)

theorem fetch_data_outcomes_witness:
  "fetch_data (cell_reader no_dict refused_get caller_handlers) example_parser
       ''https://example.com/m.json''
     = Inl (DataFetchingError ''Error fetching data: connection refused'')
   \<and> fetch_data (cell_reader no_dict not_found_get caller_handlers) example_parser
       ''https://example.com/m.json''
     = Inl (DataFetchingError ''Error fetching data: 404 Client Error'')
   \<and> fetch_data (cell_reader no_dict echo_get caller_handlers) example_parser
       ''https://example.com/m.json''
     = Inr ''https://example.com/m.json''"
proof -
  let ?uri = "''https://example.com/m.json''"
  have u: "?uri = (if startswith ?uri ''ipfs://''
                   then replace ?uri ''ipfs://'' (ipfs_endpoint example_parser) else ?uri)"
    by code_simp
  have a: "requests_get (cell_reader no_dict refused_get caller_handlers) ?uri
           = Inl (RequestException ''connection refused'')"
    by (simp add: cell_reader_def refused_get_def)
  have b: "requests_get (cell_reader no_dict not_found_get caller_handlers) ?uri
           = Inr \<lparr>raise_for_status = Some (RequestException ''404 Client Error''),
                  response_text = ''not found''\<rparr>"
    by (simp add: cell_reader_def not_found_get_def)
  have c: "requests_get (cell_reader no_dict echo_get caller_handlers) ?uri
           = Inr \<lparr>raise_for_status = None, response_text = ?uri\<rparr>"
    by (simp add: cell_reader_def echo_get_def)
  show ?thesis
    using fetch_data_outcomes [OF u, of "cell_reader no_dict refused_get caller_handlers"
            "''connection refused''"] a
          fetch_data_outcomes [OF u, of "cell_reader no_dict not_found_get caller_handlers"
            "''404 Client Error''"
            "\<lparr>raise_for_status = Some (RequestException ''404 Client Error''),
              response_text = ''not found''\<rparr>"] b
          fetch_data_outcomes [OF u, of "cell_reader no_dict echo_get caller_handlers"
            "''''" "\<lparr>raise_for_status = None, response_text = ?uri\<rparr>"] c
    by simp
qed

subsection \<open>The on-chain handler\<close>

lemma onchain_loop_result:
  assumes "distinct (map fst (P @ R))"
    and "distinct (map (\<lambda>(label, v). calculate_key label) R)"
    and "value_dicts h am = P @ R"
    and "\<forall>(label, v)\<in>set R. map_of md (calculate_key label) = map_of dict (calculate_key label)"
    and "\<forall>(label, v)\<in>set R. \<forall>chunk. map_of dict (calculate_key label) = Some chunk \<longrightarrow>
           (\<exists>value c. load_snake_string env chunk = Inr (value, c))"
  shows "\<exists>h'. onchain_loop env (map (\<lambda>(label, v). (label, calculate_key label)) R) (Some md) am h
                 = (None, h')
              \<and> value_dicts h' am = P @ expected_metadata env dict R"
  using assms
proof (induction R arbitrary: P md h)
  case Nil
  then show ?case by (simp add: expected_metadata_def)
next
  case (Cons item R)
  obtain label dflt where item: "item = (label, dflt)" by (cases item)
  have fresh: "label \<notin> fst ` set P" and dist': "distinct (map fst ((P @ [(label, x)]) @ R))" for x
    using Cons.prems(1) by (auto simp: item)
  have keys': "distinct (map (\<lambda>(label, v). calculate_key label) R)"
    using Cons.prems(2) by simp
  have other: "\<forall>(l, v)\<in>set R. calculate_key l \<noteq> calculate_key label"
    using Cons.prems(2) by (force simp: item)
  have same: "map_of md (calculate_key label) = map_of dict (calculate_key label)"
    using Cons.prems(4) by (simp add: item)
  have dec': "\<forall>(label, v)\<in>set R. \<forall>chunk. map_of dict (calculate_key label) = Some chunk \<longrightarrow>
           (\<exists>value c. load_snake_string env chunk = Inr (value, c))"
    using Cons.prems(5) by simp
  show ?case
  proof (cases "map_of dict (calculate_key label)")
    case None
    have "value_dicts h am = (P @ [(label, dflt)]) @ R"
      using Cons.prems(3) by (simp add: item)
    moreover have "\<forall>(l, v)\<in>set R. map_of md (calculate_key l) = map_of dict (calculate_key l)"
      using Cons.prems(4) by simp
    ultimately obtain h' where
      "onchain_loop env (map (\<lambda>(label, v). (label, calculate_key label)) R) (Some md) am h = (None, h')"
      "value_dicts h' am = (P @ [(label, dflt)]) @ expected_metadata env dict R"
      using Cons.IH [OF dist' keys' _ _ dec'] by blast
    with None same show ?thesis
      by (simp add: item expected_metadata_def)
  next
    case (Some chunk)
    then obtain "value" c where dec: "load_snake_string env chunk = Inr (value, c)"
      using Cons.prems(5) by (auto simp: item)
    let ?h = "value_dict_setitem am label (Some value) h"
    let ?md = "AList.update (calculate_key label) c md"
    have "value_dicts ?h am = (P @ [(label, Some value)]) @ R"
      using Cons.prems(3) fresh by (simp add: item value_dict_setitem_def update_in_place)
    moreover have "\<forall>(l, v)\<in>set R. map_of ?md (calculate_key l) = map_of dict (calculate_key l)"
      using Cons.prems(4) other by (auto simp: update_conv')
    ultimately obtain h' where
      "onchain_loop env (map (\<lambda>(label, v). (label, calculate_key label)) R) (Some ?md) am ?h = (None, h')"
      "value_dicts h' am = (P @ [(label, Some value)]) @ expected_metadata env dict R"
      using Cons.IH [OF dist' keys' _ _ dec'] by blast
    with Some same dec show ?thesis
      by (simp add: item expected_metadata_def)
  qed
qed

lemma onchain_result:
  assumes alloc: "extra_default_values self < lim h"
    and load: "load_metadata env cs = Inr (Some dict, cs')"
    and table: "table = dict_update fixed_defaults (value_dicts h (extra_default_values self))"
    and keys: "distinct (map (\<lambda>(label, v). calculate_key label) table)"
    and dec: "\<forall>label\<in>fst ` set table. \<forall>chunk. map_of dict (calculate_key label) = Some chunk \<longrightarrow>
           (\<exists>value c. load_snake_string env chunk = Inr (value, c))"
  shows "fst (default_handle_onchain_content env self cs h)
         = Inr (Onchain (expected_metadata env dict table))"
proof -
  let ?h2 = "value_dict_update (lim h) (extra_default_values self)
               (snd (new_value_dict fixed_defaults h))"
  let ?h3 = "snd (value_dict_copy (lim h) ?h2)"
  have t2: "value_dicts ?h2 (lim h) = table"
    using alloc by (simp add: table value_dict_update_def new_value_dict_def)
  have t3: "value_dicts ?h3 (Suc (lim h)) = [] @ table"
    using t2 by (simp add: value_dict_copy_def new_value_dict_def value_dict_update_def)
  have d: "distinct (map fst ([] @ table))"
    by (simp add: table distinct_dict_update distinct_fixed_defaults)
  have dec': "\<forall>(label, v)\<in>set table. \<forall>chunk. map_of dict (calculate_key label) = Some chunk \<longrightarrow>
           (\<exists>value c. load_snake_string env chunk = Inr (value, c))"
    using dec by force
  from onchain_loop_result [OF d keys t3 _ dec', of dict]
  obtain h' where
    "onchain_loop env (map (\<lambda>(label, v). (label, calculate_key label)) table) (Some dict)
       (Suc (lim h)) ?h3 = (None, h')"
    "value_dicts h' (Suc (lim h)) = expected_metadata env dict table"
    by auto
  with load t2 show ?thesis
    by (simp add: default_handle_onchain_content_def Let_def new_value_dict_def
          value_dict_copy_def value_dict_update_def)
qed

lemma expected_metadata_keys: "map fst (expected_metadata env dict table) = map fst table"
  by (simp add: expected_metadata_def split_beta)

lemma expected_metadata_get:
  assumes "distinct (map fst table)" and "(label, dflt) \<in> set table"
  shows "map_of (expected_metadata env dict table) label =
     Some (case map_of dict (calculate_key label) of
             None \<Rightarrow> dflt
           | Some chunk \<Rightarrow>
               (case load_snake_string env chunk of Inl e \<Rightarrow> dflt | Inr (value, c) \<Rightarrow> Some value))"
proof -
  have "distinct (map fst (expected_metadata env dict table))"
    using assms(1) by (simp add: expected_metadata_keys)
  moreover have "(label, case map_of dict (calculate_key label) of
             None \<Rightarrow> dflt
           | Some chunk \<Rightarrow>
               (case load_snake_string env chunk of Inl e \<Rightarrow> dflt | Inr (value, c) \<Rightarrow> Some value))
        \<in> set (expected_metadata env dict table)"
    using assms(2) by (force simp: expected_metadata_def)
  ultimately show ?thesis by (rule map_of_is_SomeI)
qed

lemma expected_metadata_unrecognized:
  assumes "\<forall>label\<in>fst ` set table. map_of dict (calculate_key label) = None"
  shows "expected_metadata env dict table = table"
proof -
  have "(\<lambda>(label, dflt). (label, case map_of dict (calculate_key label) of
                      None \<Rightarrow> dflt
                    | Some chunk \<Rightarrow>
                        (case load_snake_string env chunk of
                           Inl e \<Rightarrow> dflt
                         | Inr (value, c) \<Rightarrow> Some value))) item = item"
    if "item \<in> set table" for item
    using assms that by (cases item) force
  then show ?thesis
    by (simp add: expected_metadata_def map_idI)
qed

text \<open>
  On a dictionary with entries the handler does what section 4.3 describes. Let \<open>table\<close> be
  the nine fixed defaults updated with \<^verbatim>\<open>extra_default_values\<close>. The metadata returned has
  exactly the names of \<open>table\<close>; a name whose key is in the dictionary maps to the snake
  string of that entry, a name whose key is absent keeps its default; entries under other
  keys have no effect; with no recognized key the metadata is \<open>table\<close> itself. Distinct
  names are taken to have distinct keys, and the entries read to decode.
\<close>

lemma onchain_metadata_of_entries:
  assumes "extra_default_values self < lim h"
    and "load_metadata env cs = Inr (Some dict, cs')"
    and "table = dict_update fixed_defaults (value_dicts h (extra_default_values self))"
    and "distinct (map (\<lambda>(label, v). calculate_key label) table)"
    and "\<forall>label\<in>fst ` set table. \<forall>chunk. map_of dict (calculate_key label) = Some chunk \<longrightarrow>
           (\<exists>value c. load_snake_string env chunk = Inr (value, c))"
  shows "\<exists>m. fst (default_handle_onchain_content env self cs h) = Inr (Onchain m)
           \<and> map fst m = map fst table
           \<and> (\<forall>label chunk value c.
                 label \<in> fst ` set table \<and> map_of dict (calculate_key label) = Some chunk
                 \<and> load_snake_string env chunk = Inr (value, c)
                 \<longrightarrow> map_of m label = Some (Some value))
           \<and> (\<forall>label\<in>fst ` set table.
                 map_of dict (calculate_key label) = None \<longrightarrow> map_of m label = map_of table label)
           \<and> ((\<forall>label\<in>fst ` set table. map_of dict (calculate_key label) = None) \<longrightarrow> m = table)"
proof -
  let ?m = "expected_metadata env dict table"
  have d: "distinct (map fst table)"
    by (simp add: assms(3) distinct_dict_update distinct_fixed_defaults)
  have get: "map_of ?m label =
     Some (case map_of dict (calculate_key label) of
             None \<Rightarrow> dflt
           | Some chunk \<Rightarrow>
               (case load_snake_string env chunk of Inl e \<Rightarrow> dflt | Inr (value, c) \<Rightarrow> Some value))"
    if "(label, dflt) \<in> set table" for label dflt
    using expected_metadata_get [OF d that] .
  have present: "map_of ?m label = Some (Some value)"
    if "label \<in> fst ` set table" "map_of dict (calculate_key label) = Some chunk"
      "load_snake_string env chunk = Inr (value, c)" for label chunk "value" c
  proof -
    from that(1) obtain dflt where "(label, dflt) \<in> set table" by force
    from get [OF this] that(2,3) show ?thesis by simp
  qed
  have absent: "map_of ?m label = map_of table label"
    if "label \<in> fst ` set table" "map_of dict (calculate_key label) = None" for label
  proof -
    from that(1) obtain dflt where in_t: "(label, dflt) \<in> set table" by force
    from d in_t have "map_of table label = Some dflt" by (rule map_of_is_SomeI)
    with get [OF in_t] that(2) show ?thesis by simp
  qed
  have "fst (default_handle_onchain_content env self cs h) = Inr (Onchain ?m)"
    by (rule onchain_result [OF assms])
  moreover have "map fst ?m = map fst table" by (rule expected_metadata_keys)
  ultimately show ?thesis
    using present absent expected_metadata_unrecognized [of table dict env]
    by (intro exI [of _ ?m]) blast
qed

lemma onchain_metadata_run:
  "extra_default_values (fst override_setup) < lim (snd override_setup)
   \<and> load_metadata token_env (text_slice [])
       = Inr (Some [(calculate_key ''name'', text_slice ''Pablocoin''), (7, text_slice ''other'')],
              text_slice [])
   \<and> distinct (map (\<lambda>(label, v). calculate_key label) override_table)
   \<and> (\<exists>m. fst (default_handle_onchain_content token_env (fst override_setup) (text_slice [])
                 (snd override_setup)) = Inr (Onchain m)
          \<and> map fst m = map fst override_table
          \<and> map_of m ''name'' = Some (Some ''Pablocoin'')
          \<and> map_of m ''decimals'' = Some (Some ''6'')
          \<and> map_of m ''symbol'' = Some None)
   \<and> fst (default_handle_onchain_content unknown_env (fst override_setup) (text_slice [])
             (snd override_setup)) = Inr (Onchain override_table)"
proof -
  let ?dict = "[(calculate_key ''name'', text_slice ''Pablocoin''), (7, text_slice ''other'')]"
  have a: "extra_default_values (fst override_setup) < lim (snd override_setup)"
    by code_simp
  have l: "load_metadata token_env (text_slice []) = Inr (Some ?dict, text_slice [])"
    by (simp add: load_metadata_def token_env_def cell_reader_def token_dict_def)
  have lu: "load_metadata unknown_env (text_slice [])
             = Inr (Some [(7, text_slice ''other'')], text_slice [])"
    by (simp add: load_metadata_def unknown_env_def cell_reader_def unknown_dict_def)
  have t: "override_table = dict_update fixed_defaults
             (value_dicts (snd override_setup) (extra_default_values (fst override_setup)))"
    by code_simp
  have k: "distinct (map (\<lambda>(label, v). calculate_key label) override_table)"
    by (simp add: override_table_def fixed_keys)
  have u: "decode_utf8 (encode_text ''Pablocoin'') = Inr ''Pablocoin''"
    by code_simp
  have s: "load_snake_string token_env (text_slice ''Pablocoin'')
           = Inr (''Pablocoin'', \<lparr>rest_bits = [], children = []\<rparr>)"
    by (simp add: token_env_def cell_reader_def text_slice_def u del: encode_text.simps)
  have d: "\<forall>label\<in>fst ` set override_table. \<forall>chunk.
             map_of ?dict (calculate_key label) = Some chunk \<longrightarrow>
             (\<exists>value c. load_snake_string token_env chunk = Inr (value, c))"
    by (simp add: override_table_def fixed_keys s)
  have du: "\<forall>label\<in>fst ` set override_table. \<forall>chunk.
             map_of [(7, text_slice ''other'')] (calculate_key label) = Some chunk \<longrightarrow>
             (\<exists>value c. load_snake_string unknown_env chunk = Inr (value, c))"
    by (simp add: override_table_def fixed_keys)
  from onchain_metadata_of_entries [OF a l t k d] obtain m where
    body: "fst (default_handle_onchain_content token_env (fst override_setup) (text_slice [])
              (snd override_setup)) = Inr (Onchain m)
      \<and> map fst m = map fst override_table
      \<and> (\<forall>label chunk value c.
            label \<in> fst ` set override_table \<and> map_of ?dict (calculate_key label) = Some chunk
            \<and> load_snake_string token_env chunk = Inr (value, c)
            \<longrightarrow> map_of m label = Some (Some value))
      \<and> (\<forall>label\<in>fst ` set override_table.
            map_of ?dict (calculate_key label) = None
            \<longrightarrow> map_of m label = map_of override_table label)
      \<and> ((\<forall>label\<in>fst ` set override_table. map_of ?dict (calculate_key label) = None)
            \<longrightarrow> m = override_table)"
    by (rule exE)
  note m = body [THEN conjunct1] body [THEN conjunct2, THEN conjunct1]
  note present = body [THEN conjunct2, THEN conjunct2, THEN conjunct1, rule_format]
  note absent = body [THEN conjunct2, THEN conjunct2, THEN conjunct2, THEN conjunct1, rule_format]
  have in_name: "''name'' \<in> fst ` set override_table"
    and in_dec: "''decimals'' \<in> fst ` set override_table"
    and in_sym: "''symbol'' \<in> fst ` set override_table"
    by (simp_all add: override_table_def)
  have at_name: "map_of ?dict (calculate_key ''name'') = Some (text_slice ''Pablocoin'')"
    by simp
  have n: "map_of m ''name'' = Some (Some ''Pablocoin'')"
    using present [of "''name''" "text_slice ''Pablocoin''" "''Pablocoin''"
            "\<lparr>rest_bits = [], children = []\<rparr>"] in_name at_name s
    by (simp only: simp_thms)
  have at_dec: "map_of ?dict (calculate_key ''decimals'') = None"
    and at_sym: "map_of ?dict (calculate_key ''symbol'') = None"
    by (simp_all add: fixed_keys)
  have tab: "map_of override_table ''decimals'' = Some (Some ''6'')"
    "map_of override_table ''symbol'' = Some None"
    by (simp_all add: override_table_def)
  have dec: "map_of m ''decimals'' = Some (Some ''6'')"
    using absent [OF in_dec at_dec] tab(1) by (simp only:)
  have sym: "map_of m ''symbol'' = Some None"
    using absent [OF in_sym at_sym] tab(2) by (simp only:)
  have none: "\<forall>label\<in>fst ` set override_table.
                map_of [(7, text_slice ''other'')] (calculate_key label) = None"
    by (simp add: override_table_def fixed_keys)
  from onchain_metadata_of_entries [OF a lu t k du] obtain m' where
    body': "fst (default_handle_onchain_content unknown_env (fst override_setup) (text_slice [])
              (snd override_setup)) = Inr (Onchain m')
      \<and> map fst m' = map fst override_table
      \<and> (\<forall>label chunk value c.
            label \<in> fst ` set override_table
            \<and> map_of [(7, text_slice ''other'')] (calculate_key label) = Some chunk
            \<and> load_snake_string unknown_env chunk = Inr (value, c)
            \<longrightarrow> map_of m' label = Some (Some value))
      \<and> (\<forall>label\<in>fst ` set override_table.
            map_of [(7, text_slice ''other'')] (calculate_key label) = None
            \<longrightarrow> map_of m' label = map_of override_table label)
      \<and> ((\<forall>label\<in>fst ` set override_table.
             map_of [(7, text_slice ''other'')] (calculate_key label) = None)
            \<longrightarrow> m' = override_table)"
    by (rule exE)
  from body' [THEN conjunct2, THEN conjunct2, THEN conjunct2, THEN conjunct2, THEN mp, OF none]
    body' [THEN conjunct1]
  have u: "fst (default_handle_onchain_content unknown_env (fst override_setup) (text_slice [])
             (snd override_setup)) = Inr (Onchain override_table)"
    by (simp only:)
  have ex: "\<exists>m. fst (default_handle_onchain_content token_env (fst override_setup) (text_slice [])
                 (snd override_setup)) = Inr (Onchain m)
          \<and> map fst m = map fst override_table
          \<and> map_of m ''name'' = Some (Some ''Pablocoin'')
          \<and> map_of m ''decimals'' = Some (Some ''6'')
          \<and> map_of m ''symbol'' = Some None"
    using m n dec sym by (intro exI [of _ m] conjI)
  from a l k ex u show ?thesis by (intro conjI)
qed

text \<open>
  On a dictionary with entries, a name of the nine fixed defaults that
  \<^verbatim>\<open>extra_default_values\<close> also holds has the caller's value in the returned metadata when the
  dictionary has no entry under the name's key.
\<close>

lemma override_of_entries:
  assumes "extra_default_values self < lim h"
    and "load_metadata env cs = Inr (Some dict, cs')"
    and "table = dict_update fixed_defaults (value_dicts h (extra_default_values self))"
    and "distinct (map (\<lambda>(label, v). calculate_key label) table)"
    and "\<forall>label\<in>fst ` set table. \<forall>chunk. map_of dict (calculate_key label) = Some chunk \<longrightarrow>
           (\<exists>value c. load_snake_string env chunk = Inr (value, c))"
    and "distinct (map fst (value_dicts h (extra_default_values self)))"
    and "name \<in> fst ` set fixed_defaults"
    and "map_of (value_dicts h (extra_default_values self)) name = Some v"
    and "map_of dict (calculate_key name) = None"
  shows "\<exists>m. fst (default_handle_onchain_content env self cs h) = Inr (Onchain m)
              \<and> map_of m name = Some v"
proof -
  have d: "distinct (map fst table)"
    by (simp add: assms(3) distinct_dict_update distinct_fixed_defaults)
  have t: "map_of table name = Some v"
    using assms(8) by (simp add: assms(3) dict_update_get [OF assms(6)])
  then have in_t: "(name, v) \<in> set table" by (rule map_of_SomeD)
  have "map_of (expected_metadata env dict table) name = Some v"
    using expected_metadata_get [OF d in_t, of env dict] assms(9) by simp
  with t onchain_result [OF assms(1-5)] show ?thesis by blast
qed

lemma override_of_entries_run:
  "extra_default_values (fst override_setup) < lim (snd override_setup)
   \<and> distinct (map (\<lambda>(label, v). calculate_key label) override_table)
   \<and> distinct (map fst (value_dicts (snd override_setup) (extra_default_values (fst override_setup))))
   \<and> ''decimals'' \<in> fst ` set fixed_defaults
   \<and> map_of fixed_defaults ''decimals'' = Some (Some ''9'')
   \<and> map_of (value_dicts (snd override_setup) (extra_default_values (fst override_setup)))
        ''decimals'' = Some (Some ''6'')
   \<and> map_of [(calculate_key ''name'', text_slice ''Pablocoin''), (7, text_slice ''other'')]
        (calculate_key ''decimals'') = None
   \<and> (\<exists>m. fst (default_handle_onchain_content token_env (fst override_setup) (text_slice [])
                 (snd override_setup)) = Inr (Onchain m)
          \<and> map_of m ''decimals'' = Some (Some ''6''))"
proof -
  let ?dict = "[(calculate_key ''name'', text_slice ''Pablocoin''), (7, text_slice ''other'')]"
  have a: "extra_default_values (fst override_setup) < lim (snd override_setup)"
    by code_simp
  have l: "load_metadata token_env (text_slice []) = Inr (Some ?dict, text_slice [])"
    by (simp add: load_metadata_def token_env_def cell_reader_def token_dict_def)
  have t: "override_table = dict_update fixed_defaults
             (value_dicts (snd override_setup) (extra_default_values (fst override_setup)))"
    by code_simp
  have k: "distinct (map (\<lambda>(label, v). calculate_key label) override_table)"
    by (simp add: override_table_def fixed_keys)
  have u: "decode_utf8 (encode_text ''Pablocoin'') = Inr ''Pablocoin''"
    by code_simp
  have s: "load_snake_string token_env (text_slice ''Pablocoin'')
           = Inr (''Pablocoin'', \<lparr>rest_bits = [], children = []\<rparr>)"
    by (simp add: token_env_def cell_reader_def text_slice_def u del: encode_text.simps)
  have d: "\<forall>label\<in>fst ` set override_table. \<forall>chunk.
             map_of ?dict (calculate_key label) = Some chunk \<longrightarrow>
             (\<exists>value c. load_snake_string token_env chunk = Inr (value, c))"
    by (simp add: override_table_def fixed_keys s)
  have e: "distinct (map fst (value_dicts (snd override_setup)
                                (extra_default_values (fst override_setup))))"
    by code_simp
  have f: "''decimals'' \<in> fst ` set fixed_defaults" "map_of fixed_defaults ''decimals'' = Some (Some ''9'')"
    by (simp_all add: fixed_defaults_def)
  have g: "map_of (value_dicts (snd override_setup) (extra_default_values (fst override_setup)))
        ''decimals'' = Some (Some ''6'')"
    by code_simp
  have n: "map_of ?dict (calculate_key ''decimals'') = None"
    by (simp add: fixed_keys)
  from override_of_entries [OF a l t k d e f(1) g n] a k e f g n show ?thesis by blast
qed

text \<open>
  On an empty dictionary the reader returns \<^verbatim>\<open>None\<close>, and the first \<^verbatim>\<open>metadata.get(key)\<close> of
  the loop raises \<^verbatim>\<open>AttributeError\<close>, whatever the defaults.
\<close>

lemma dict_update_not_empty: "a \<noteq> [] \<Longrightarrow> dict_update a b \<noteq> []"
proof (induction b arbitrary: a)
  case Nil
  then show ?case by (simp add: dict_update_def)
next
  case (Cons kv b)
  obtain k v where kv: "kv = (k, v)" by (cases kv)
  have "AList.update k v a \<noteq> []" by (cases a) simp_all
  from Cons.IH [OF this] show ?case by (simp add: dict_update_def kv)
qed

lemma onchain_loop_None:
  "items \<noteq> [] \<Longrightarrow> onchain_loop env items None am h = (Some (OtherError ''AttributeError''), h)"
  by (cases items) auto

lemma onchain_None:
  assumes "load_metadata env cs = Inr (None, cs')"
  shows "fst (default_handle_onchain_content env self cs h) = Inl (OtherError ''AttributeError'')"
proof -
  let ?dv = "fst (new_value_dict fixed_defaults h)"
  let ?h2 = "value_dict_update ?dv (extra_default_values self)
               (snd (new_value_dict fixed_defaults h))"
  let ?keys = "map (\<lambda>(label, v). (label, calculate_key label)) (value_dicts ?h2 ?dv)"
  have "fixed_defaults \<noteq> []" by (simp add: fixed_defaults_def)
  then have "value_dicts ?h2 ?dv \<noteq> []"
    by (simp add: value_dict_update_def new_value_dict_def dict_update_not_empty)
  then have "?keys \<noteq> []" by simp
  then have loop: "onchain_loop env ?keys None am h' = (Some (OtherError ''AttributeError''), h')"
    for am h'
    by (rule onchain_loop_None)
  show ?thesis
    by (simp add: default_handle_onchain_content_def Let_def split_beta assms loop)
qed

lemma parse_content_onchain:
  assumes "parse_prefix env (begin_parse env content) = Inr (0, cs1)"
    and "handler_dict_get (dict_update (handler_dicts h (default_handlers self))
                                       (handler_dicts h (prefix_handlers self))) 0
         = PyCallable Onchain_method"
  shows "fst (parse_content env self content h)
         = fst (default_handle_onchain_content env self cs1
                  (snd (merge_handler_dicts (default_handlers self) (prefix_handlers self) h)))"
  by (simp add: parse_content_dispatch [OF assms(1)] assms(2) Let_def)

text \<open>
  C2. An on-chain cell with an empty dictionary has no recognized key. The handler does
  not return the table of defaults on it: it raises \<^verbatim>\<open>AttributeError\<close>, and so does
  \<open>parse_content\<close> on the cell with prefix \<^verbatim>\<open>0x00\<close>.
\<close>

theorem onchain_empty_dictionary_raises:
  "load_metadata example_env \<lparr>rest_bits = [], children = []\<rparr>
     = Inr (None, \<lparr>rest_bits = [], children = []\<rparr>)
   \<and> fst (default_handle_onchain_content example_env example_parser
            \<lparr>rest_bits = [], children = []\<rparr> example_heap)
       = Inl (OtherError ''AttributeError'')
   \<and> fst (parse_content example_env example_parser (Cell (byte_bits 0) []) example_heap)
       = Inl (OtherError ''AttributeError'')"
proof -
  have l: "load_metadata example_env \<lparr>rest_bits = [], children = []\<rparr>
           = Inr (None, \<lparr>rest_bits = [], children = []\<rparr>)"
    by (simp add: load_metadata_def example_env_def cell_reader_def no_dict_def)
  have p: "parse_prefix example_env (begin_parse example_env (Cell (byte_bits 0) []))
           = Inr (0, \<lparr>rest_bits = [], children = []\<rparr>)"
    by code_simp
  have g: "handler_dict_get
             (dict_update (handler_dicts example_heap (default_handlers example_parser))
                          (handler_dicts example_heap (prefix_handlers example_parser))) 0
           = PyCallable Onchain_method"
    by code_simp
  show ?thesis
    by (simp only: l onchain_None [OF l] parse_content_onchain [OF p g] simp_thms)
qed

text \<open>
  C7. The parser holds the caller's default \<^verbatim>\<open>"6"\<close> for \<^verbatim>\<open>decimals\<close>. An on-chain cell with
  an empty dictionary omits the key of \<^verbatim>\<open>decimals\<close>; on it no metadata is returned, with
  or without the caller's value: the handler raises \<^verbatim>\<open>AttributeError\<close>.
\<close>

theorem override_empty_dictionary_raises:
  "map_of (value_dicts (snd override_setup) (extra_default_values (fst override_setup)))
     ''decimals'' = Some (Some ''6'')
   \<and> load_metadata example_env \<lparr>rest_bits = [], children = []\<rparr>
       = Inr (None, \<lparr>rest_bits = [], children = []\<rparr>)
   \<and> fst (default_handle_onchain_content example_env (fst override_setup)
            \<lparr>rest_bits = [], children = []\<rparr> (snd override_setup))
       = Inl (OtherError ''AttributeError'')
   \<and> fst (parse_content example_env (fst override_setup) (Cell (byte_bits 0) [])
            (snd override_setup))
       = Inl (OtherError ''AttributeError'')"
proof -
  have e: "map_of (value_dicts (snd override_setup) (extra_default_values (fst override_setup)))
             ''decimals'' = Some (Some ''6'')"
    by code_simp
  have l: "load_metadata example_env \<lparr>rest_bits = [], children = []\<rparr>
           = Inr (None, \<lparr>rest_bits = [], children = []\<rparr>)"
    by (simp add: load_metadata_def example_env_def cell_reader_def no_dict_def)
  have p: "parse_prefix example_env (begin_parse example_env (Cell (byte_bits 0) []))
           = Inr (0, \<lparr>rest_bits = [], children = []\<rparr>)"
    by code_simp
  have g: "handler_dict_get
             (dict_update (handler_dicts (snd override_setup) (default_handlers (fst override_setup)))
                          (handler_dicts (snd override_setup) (prefix_handlers (fst override_setup)))) 0
           = PyCallable Onchain_method"
    by code_simp
  show ?thesis
    by (simp only: e l onchain_None [OF l] parse_content_onchain [OF p g] simp_thms)
qed

subsection \<open>The configuration is not written\<close>

lemma onchain_loop_frame:
  "onchain_loop env items md am h = (r, h') \<Longrightarrow>
   handler_dicts h' = handler_dicts h \<and> lim h' = lim h
   \<and> (\<forall>a. a \<noteq> am \<longrightarrow> value_dicts h' a = value_dicts h a)"
proof (induction env items md am h rule: onchain_loop.induct)
  case (1 env metadata all_metadata h)
  then show ?case by simp
next
  case (2 env label key items all_metadata h)
  then show ?case by simp
next
  case (3 env label key items entries all_metadata h)
  show ?case
  proof (cases "map_of entries key")
    case None
    with 3 show ?thesis by simp
  next
    case (Some value_chunk)
    show ?thesis
    proof (cases "load_snake_string env value_chunk")
      case (Inl e)
      with 3 Some show ?thesis by simp
    next
      case (Inr vc)
      obtain v c where vc: "vc = (v, c)" by (cases vc)
      from 3(2) [OF Some Inr [unfolded vc] refl] 3(3) Some Inr vc
      show ?thesis by (simp add: value_dict_setitem_def)
    qed
  qed
qed

lemma onchain_frame:
  assumes "default_handle_onchain_content env self cs h = (r, h')"
  shows "handler_dicts h' = handler_dicts h \<and> lim h \<le> lim h'
         \<and> (\<forall>a<lim h. value_dicts h' a = value_dicts h a)"
proof (cases "load_metadata env cs")
  case (Inl e)
  with assms show ?thesis
    by (auto simp: default_handle_onchain_content_def new_value_dict_def value_dict_update_def
          Let_def)
next
  case (Inr mc)
  obtain md cs' where mc: "mc = (md, cs')" by (cases mc)
  let ?h2 = "value_dict_update (lim h) (extra_default_values self)
               (snd (new_value_dict fixed_defaults h))"
  let ?h3 = "snd (value_dict_copy (lim h) ?h2)"
  let ?keys = "map (\<lambda>(label, v). (label, calculate_key label)) (value_dicts ?h2 (lim h))"
  obtain r4 h4 where loop: "onchain_loop env ?keys md (Suc (lim h)) ?h3 = (r4, h4)"
    by (cases "onchain_loop env ?keys md (Suc (lim h)) ?h3")
  have h': "h' = h4"
    using assms Inr mc loop
    by (auto simp: default_handle_onchain_content_def new_value_dict_def value_dict_update_def
          value_dict_copy_def Let_def split: option.splits)
  from onchain_loop_frame [OF loop]
  show ?thesis
    by (auto simp: h' new_value_dict_def value_dict_update_def value_dict_copy_def)
qed

lemma call_frame:
  assumes custom: "\<forall>k cs h0. config self (snd (call_custom env k cs h0)) = config self h0"
    and alloc: "prefix_handlers self < lim h" "extra_default_values self < lim h"
       "default_handlers self < lim h"
  shows "config self (snd (call env self obj cs h)) = config self h"
proof (cases "(env, self, obj, cs, h)" rule: call.cases)
  case (1 env self cs h)
  then show ?thesis by simp
next
  case (2 env' self' cs' h'')
  obtain r h' where run: "default_handle_onchain_content env self cs h = (r, h')"
    by (cases "default_handle_onchain_content env self cs h")
  from onchain_frame [OF run] alloc 2 run show ?thesis
    by (simp add: config_def)
next
  case (3 env self k cs h)
  with custom show ?thesis by simp
qed simp_all

text \<open>
  C9. A call of \<open>parse_content\<close>, whether it returns or raises, leaves the parser's
  configuration as it was: the gateway URL and the contents of \<^verbatim>\<open>prefix_handlers\<close>,
  \<^verbatim>\<open>extra_default_values\<close> and \<^verbatim>\<open>default_handlers\<close>. The merged registry and the table
  of defaults are new dicts. The parser's dicts are allocated, and the caller's own
  handlers are taken not to write to them.
\<close>

theorem parse_content_keeps_config:
  assumes "prefix_handlers self < lim h" and "extra_default_values self < lim h"
    and "default_handlers self < lim h"
    and "\<forall>k cs h0. config self (snd (call_custom env k cs h0)) = config self h0"
  shows "config self (snd (parse_content env self content h)) = config self h"
proof (cases "parse_prefix env (begin_parse env content)")
  case (Inl e)
  then show ?thesis by (simp add: parse_content_def)
next
  case (Inr pc)
  obtain prefix_value cs1 where pc: "pc = (prefix_value, cs1)" by (cases pc)
  let ?h1 = "snd (merge_handler_dicts (default_handlers self) (prefix_handlers self) h)"
  have h1: "config self ?h1 = config self h" "lim ?h1 = Suc (lim h)"
    using assms(1-3) by (simp_all add: config_def merge_handler_dicts_def new_handler_dict_def)
  have "config self (snd (call env self obj cs1 ?h1)) = config self ?h1" for obj
    using call_frame [of self env ?h1 obj cs1] assms h1(2) by simp
  with h1(1) Inr pc show ?thesis
    by (simp add: parse_content_def Let_def split_beta)
qed

theorem parse_content_keeps_config_witness:
  "prefix_handlers (fst override_setup) < lim (snd override_setup)
   \<and> extra_default_values (fst override_setup) < lim (snd override_setup)
   \<and> default_handlers (fst override_setup) < lim (snd override_setup)
   \<and> (\<forall>k cs h0. config (fst override_setup) (snd (call_custom token_env k cs h0))
                   = config (fst override_setup) h0)
   \<and> config (fst override_setup)
        (snd (parse_content token_env (fst override_setup) (Cell (byte_bits 0) [])
               (snd override_setup)))
      = (''https://ipfs.io/ipfs/'', [(2, PyCallable (Custom 0))], [(''decimals'', Some ''6'')],
         [(1, PyCallable Offchain_method), (0, PyCallable Onchain_method)])"
proof -
  have a: "prefix_handlers (fst override_setup) < lim (snd override_setup)"
    "extra_default_values (fst override_setup) < lim (snd override_setup)"
    "default_handlers (fst override_setup) < lim (snd override_setup)"
    by code_simp+
  have c: "\<forall>k cs h0. config (fst override_setup) (snd (call_custom token_env k cs h0))
                   = config (fst override_setup) h0"
    by (simp add: token_env_def cell_reader_def caller_handlers_def custom_prefix_handler_def
          unary_handler_def)
  have v: "config (fst override_setup) (snd override_setup)
      = (''https://ipfs.io/ipfs/'', [(2, PyCallable (Custom 0))], [(''decimals'', Some ''6'')],
         [(1, PyCallable Offchain_method), (0, PyCallable Onchain_method)])"
    by code_simp
  show ?thesis
    using parse_content_keeps_config [OF a c, of "Cell (byte_bits 0) []"] a c v by simp
qed

end
